theory Spec2Isabelle
  imports Complex_Main "HOL-Library.Monad_Syntax"
begin

section \<open>The recursive chunker of chonkie\<close>

text \<open>
  A shallow embedding of \<^verbatim>\<open>src/chonkie/chunker/recursive.py\<close> (the class
  \<^verbatim>\<open>RecursiveChunker\<close>) and of the types it uses from
  \<^verbatim>\<open>src/chonkie/types/recurisve.py\<close>.

  Naming. Python names that start with an underscore lose it (\<^verbatim>\<open>_merge_splits\<close> is
  \<open>merge_splits\<close>).

  The two files do not agree on names. The chunker reads the attributes
  \<^verbatim>\<open>whitespace\<close> and \<^verbatim>\<open>delimiters\<close> of a level and builds a chunk with the keyword
  \<^verbatim>\<open>level\<close>; the dataclasses of types/recurisve.py declare \<^verbatim>\<open>whitespace_delimiter\<close>,
  \<^verbatim>\<open>custom_delimiters\<close> and \<^verbatim>\<open>recursive_level\<close>. The embedding keeps both files as
  they are written: such a read raises AttributeError and such a call raises TypeError.
\<close>

subsection \<open>Python strings\<close>

text \<open>
  A Python \<^verbatim>\<open>str\<close> is a sequence of Unicode code points, and \<^verbatim>\<open>len\<close> counts
  code points. The separator of the chunker is the character U+2704, outside the
  range of \<^typ>\<open>char\<close>, so a string is a list of code points.
\<close>

type_synonym str = "nat list"

definition cp :: "string \<Rightarrow> str" where
  "cp s = map of_char s"

text \<open>\<^verbatim>\<open>s.split(c)\<close> for a separator of one character.\<close>

fun str_split :: "nat \<Rightarrow> str \<Rightarrow> str list" where
  "str_split c [] = [[]]"
| "str_split c (x # xs) =
     (if x = c then [] # str_split c xs
      else (case str_split c xs of
              [] \<Rightarrow> [[x]]
            | p # ps \<Rightarrow> (x # p) # ps))"

text \<open>
  \<^verbatim>\<open>s.replace(old, new)\<close>: the occurrences of \<open>old\<close> are found from the left and do
  not overlap. For an empty \<open>old\<close> Python puts \<open>new\<close> before every character and at
  the end.
\<close>

function str_replace_ne :: "str \<Rightarrow> str \<Rightarrow> str \<Rightarrow> str" where
  "str_replace_ne old new s =
     (if s = [] \<or> old = [] then s
      else if take (length old) s = old
           then new @ str_replace_ne old new (drop (length old) s)
           else hd s # str_replace_ne old new (tl s))"
  by pat_completeness auto
termination
  by (relation "measure (\<lambda>(old, new, s). length s)") auto

declare str_replace_ne.simps [simp del]

definition str_replace :: "str \<Rightarrow> str \<Rightarrow> str \<Rightarrow> str" where
  "str_replace old new s =
     (if old = [] then new @ concat (map (\<lambda>c. c # new) s)
      else str_replace_ne old new s)"

text \<open>
  \<^verbatim>\<open>s.index(sub)\<close>: the offset of the first occurrence, \<open>None\<close> where Python raises
  ValueError (substring not found).
\<close>

fun str_index :: "str \<Rightarrow> str \<Rightarrow> nat option" where
  "str_index [] sub = (if sub = [] then Some 0 else None)"
| "str_index (c # s) sub =
     (if take (length sub) (c # s) = sub then Some 0
      else map_option Suc (str_index s sub))"

text \<open>\<^verbatim>\<open>s[k:]\<close> for any integer \<open>k\<close>: a negative \<open>k\<close> counts from the end.\<close>

definition str_from :: "str \<Rightarrow> int \<Rightarrow> str" where
  "str_from s k =
     (if k < 0 then drop (nat (int (length s) + k)) s else drop (nat k) s)"

text \<open>\<^verbatim>\<open>sep.join(xs)\<close>.\<close>

fun str_join :: "str \<Rightarrow> str list \<Rightarrow> str" where
  "str_join s [] = []"
| "str_join s [x] = x"
| "str_join s (x # y # ys) = x @ s @ str_join s (y # ys)"

subsection \<open>Errors\<close>

datatype error = ValueError | NotImplementedError | TypeError | AttributeError | IndexError

subsection \<open>Level rules and rule hierarchies (types/recurisve.py)\<close>

text \<open>
  \<^verbatim>\<open>custom_delimiters: list[str] | str | None\<close>. Iterating over a \<^verbatim>\<open>str\<close>
  yields its characters, each a string of length one.
\<close>

datatype delims = DStr str | DList "str list"

record RecursiveLevel =
  whitespace_delimiter :: bool
  custom_delimiters :: "delims option"
  include_delim :: "string option"

definition validate_fields :: "RecursiveLevel \<Rightarrow> error + unit" where
  "validate_fields r =
     (if custom_delimiters r \<noteq> None \<and> whitespace_delimiter r then Inl NotImplementedError
      else (case custom_delimiters r of
              None \<Rightarrow> Inr ()
            | Some (DStr s) \<Rightarrow> (if length s = 0 then Inl ValueError else Inr ())
            | Some (DList ds) \<Rightarrow>
                (if list_ex (\<lambda>delim. length delim = 0) ds then Inl ValueError
                 else if list_ex (\<lambda>delim. delim = cp '' '') ds then Inl ValueError
                 else Inr ())))"

text \<open>The dataclass's constructor: the fields, then \<^verbatim>\<open>__post_init__\<close>.\<close>

definition RecursiveLevel_init ::
    "bool \<Rightarrow> delims option \<Rightarrow> string option \<Rightarrow> error + RecursiveLevel" where
  "RecursiveLevel_init ws ds inc =
     (let r = \<lparr>whitespace_delimiter = ws, custom_delimiters = ds, include_delim = inc\<rparr>
      in case validate_fields r of Inl e \<Rightarrow> Inl e | Inr u \<Rightarrow> Inr r)"

definition delims_iter :: "delims \<Rightarrow> str list" where
  "delims_iter d = (case d of DStr s \<Rightarrow> map (\<lambda>c. [c]) s | DList ds \<Rightarrow> ds)"

text \<open>The truth value of \<^verbatim>\<open>level.delimiters\<close>: None, an empty string and an empty list are false.\<close>

definition delims_truthy :: "delims option \<Rightarrow> bool" where
  "delims_truthy d =
     (case d of None \<Rightarrow> False | Some (DStr s) \<Rightarrow> s \<noteq> [] | Some (DList ds) \<Rightarrow> ds \<noteq> [])"

text \<open>
  \<^verbatim>\<open>RecursiveRules.levels\<close> after \<^verbatim>\<open>__post_init__\<close>: a list of levels or one bare
  level (\<^verbatim>\<open>None\<close> has been replaced by the default hierarchy).
\<close>

datatype RecursiveRules = RulesList "RecursiveLevel list" | RulesSingle RecursiveLevel

definition default_levels :: "RecursiveLevel list" where
  "default_levels =
     [\<lparr>whitespace_delimiter = False,
       custom_delimiters = Some (DList [[10], [10, 10], [13, 10]]),
       include_delim = Some ''prev''\<rparr>,
      \<lparr>whitespace_delimiter = False,
       custom_delimiters = Some (DList [cp ''.'', cp ''!'', cp ''?'']),
       include_delim = Some ''prev''\<rparr>,
      \<lparr>whitespace_delimiter = False,
       custom_delimiters = Some (DList
         [cp ''{'', cp ''}'', [34], cp ''['', cp '']'', cp ''<'', cp ''>'', cp ''('', cp '')'',
          cp '':'', cp '';'', cp '','', [8212], cp ''|'', cp ''~'', cp ''-'', cp ''...'',
          [96], [39]]),
       include_delim = Some ''prev''\<rparr>,
      \<lparr>whitespace_delimiter = True, custom_delimiters = None, include_delim = Some ''prev''\<rparr>,
      \<lparr>whitespace_delimiter = False, custom_delimiters = None, include_delim = Some ''prev''\<rparr>]"

fun validate_all :: "RecursiveLevel list \<Rightarrow> error + unit" where
  "validate_all [] = Inr ()"
| "validate_all (l # ls) =
     (case validate_fields l of Inl e \<Rightarrow> Inl e | Inr u \<Rightarrow> validate_all ls)"

definition RecursiveRules_init :: "RecursiveRules option \<Rightarrow> error + RecursiveRules" where
  "RecursiveRules_init levels =
     (case levels of
        None \<Rightarrow> Inr (RulesList default_levels)
      | Some (RulesSingle l) \<Rightarrow>
          (case validate_fields l of Inl e \<Rightarrow> Inl e | Inr u \<Rightarrow> Inr (RulesSingle l))
      | Some (RulesList ls) \<Rightarrow>
          (case validate_all ls of Inl e \<Rightarrow> Inl e | Inr u \<Rightarrow> Inr (RulesList ls)))"

text \<open>\<^verbatim>\<open>len(rules)\<close>: a bare level has no length.\<close>

definition rules_len :: "RecursiveRules \<Rightarrow> error + nat" where
  "rules_len r = (case r of RulesList ls \<Rightarrow> Inr (length ls) | RulesSingle l \<Rightarrow> Inl TypeError)"

text \<open>\<^verbatim>\<open>rules[index]\<close> for an index that is not negative.\<close>

definition rules_getitem :: "RecursiveRules \<Rightarrow> nat \<Rightarrow> error + RecursiveLevel" where
  "rules_getitem r i =
     (case r of
        RulesList ls \<Rightarrow> (if i < length ls then Inr (ls ! i) else Inl IndexError)
      | RulesSingle l \<Rightarrow> Inl TypeError)"

subsection \<open>Chunk records\<close>

text \<open>
  \<^verbatim>\<open>RecursiveChunk\<close> extends the base class \<^verbatim>\<open>Chunk\<close> by the field
  \<^verbatim>\<open>recursive_level\<close>. The base class (chonkie/types/base.py) is not among the sources;
  its fields are the ones \<^verbatim>\<open>RecursiveChunk.str_repr\<close> prints beside
  \<^verbatim>\<open>recursive_level\<close>: text, start_index, end_index and token_count. The field
  \<^verbatim>\<open>text\<close> is \<open>chunk_text\<close> here: \<^theory_text>\<open>text\<close> is a keyword.
\<close>

record RecursiveChunk =
  chunk_text :: str
  start_index :: int
  end_index :: int
  token_count :: int
  recursive_level :: "int option"

definition RecursiveChunk_fields :: "string list" where
  "RecursiveChunk_fields =
     [''text'', ''start_index'', ''end_index'', ''token_count'', ''recursive_level'']"

text \<open>
  The constructor that \<^verbatim>\<open>@dataclass\<close> generates, called with keyword arguments: a
  keyword that names no field raises TypeError (unexpected keyword argument). The record
  holds the values of the keywords that do name a field.
\<close>

definition RecursiveChunk_init :: "string list \<Rightarrow> RecursiveChunk \<Rightarrow> error + RecursiveChunk" where
  "RecursiveChunk_init keywords c =
     (if list_all (\<lambda>k. k \<in> set RecursiveChunk_fields) keywords then Inr c else Inl TypeError)"

text \<open>An element of the chunker's result: a chunk record, or a plain string.\<close>

datatype out = OChunk RecursiveChunk | OText str

fun out_text :: "out \<Rightarrow> str" where
  "out_text (OChunk c) = chunk_text c"
| "out_text (OText s) = s"

subsection \<open>The tokenizer and the chunker object\<close>

text \<open>
  The tokenizer is an external collaborator (held by the base class as
  \<^verbatim>\<open>self.tokenizer\<close>): the chunker calls \<^verbatim>\<open>count_tokens\<close>, \<^verbatim>\<open>encode\<close> and
  \<^verbatim>\<open>decode_batch\<close> and nothing else.
\<close>

record 'tok tokenizer =
  count_tokens :: "str \<Rightarrow> int"
  encode :: "str \<Rightarrow> 'tok list"
  decode_batch :: "'tok list list \<Rightarrow> str list"

record 'tok RecursiveChunker =
  tokenizer :: "'tok tokenizer"
  chunk_size :: int
  rules :: RecursiveRules
  min_characters_per_chunk :: int
  return_type :: string

text \<open>
  \<^verbatim>\<open>self.sep\<close>, the scissors character U+2704; \<^verbatim>\<open>__init__\<close> sets it and nothing
  changes it. The last test of \<^verbatim>\<open>__init__\<close>, \<^verbatim>\<open>isinstance(rules, RecursiveRules)\<close>,
  is the type of the argument here.
\<close>

definition sep :: nat where
  "sep = 9988"

definition RecursiveChunker_init ::
    "'tok tokenizer \<Rightarrow> int \<Rightarrow> RecursiveRules \<Rightarrow> int \<Rightarrow> string \<Rightarrow> error + 'tok RecursiveChunker" where
  "RecursiveChunker_init tk cs rs mc rt =
     (if cs \<le> 0 then Inl ValueError
      else if mc \<le> 0 then Inl ValueError
      else if rt \<notin> set [''chunks'', ''texts''] then Inl ValueError
      else Inr \<lparr>tokenizer = tk, chunk_size = cs, rules = rs,
                min_characters_per_chunk = mc, return_type = rt\<rparr>)"

subsection \<open>The token count estimator\<close>

text \<open>
  The body of \<^verbatim>\<open>_estimate_token_count\<close>:
  \<^verbatim>\<open>estimate = max(1, len(text) // 6.5)\<close>. The divisor is 13/2, so the floor of the
  quotient is \<open>2 * len(text) div 13\<close>; Python's float floor division is exact here
  (6.5 and every length below \<open>2^52\<close> are binary floats).
  The result is paired with the texts handed to \<^verbatim>\<open>tokenizer.count_tokens\<close>, in order:
  the call is the effect of the body.
\<close>

definition estimate_body :: "'tok RecursiveChunker \<Rightarrow> str \<Rightarrow> int \<times> str list" where
  "estimate_body self txt =
     (let estimate = max 1 ((2 * int (length txt)) div 13)
      in if estimate > chunk_size self then (chunk_size self + 1, [])
         else (count_tokens (tokenizer self) txt, [txt]))"

text \<open>
  \<^verbatim>\<open>@lru_cache(maxsize=4096)\<close> around the body. The cache of one chunker object: the
  key is \<^verbatim>\<open>(self, text)\<close> with \<^verbatim>\<open>self\<close> fixed, the entries are kept most recently
  used first. A hit returns the stored value, makes the entry the most recent and does not
  run the body; a miss runs the body, stores the result and drops the least recently
  used entry beyond 4096. Entries of other chunker objects share the 4096 places and
  never answer a call of this one: they can only make an entry of this object leave
  earlier, which turns a later hit into a miss.
\<close>

type_synonym cache = "(str \<times> int) list"

definition estimate_token_count ::
    "'tok RecursiveChunker \<Rightarrow> cache \<Rightarrow> str \<Rightarrow> (int \<times> str list) \<times> cache" where
  "estimate_token_count self cache txt =
     (case map_of cache txt of
        Some v \<Rightarrow> ((v, []), (txt, v) # filter (\<lambda>e. fst e \<noteq> txt) cache)
      | None \<Rightarrow>
          ((fst (estimate_body self txt), snd (estimate_body self txt)),
           take 4096 ((txt, fst (estimate_body self txt)) # cache)))"

text \<open>
  \<^verbatim>\<open>[self._estimate_token_count(split) for split in splits]\<close>: the values, and the cache
  after the calls.
\<close>

fun estimate_all :: "'tok RecursiveChunker \<Rightarrow> cache \<Rightarrow> str list \<Rightarrow> int list \<times> cache" where
  "estimate_all self cache [] = ([], cache)"
| "estimate_all self cache (split # splits) =
     (case estimate_all self (snd (estimate_token_count self cache split)) splits of
        (vs, cache') \<Rightarrow> (fst (fst (estimate_token_count self cache split)) # vs, cache'))"

text \<open>
  A cache whose entries were stored by calls of this chunker: every value is the body's
  value at its key. The empty cache is such a cache.
\<close>

definition cache_consistent :: "'tok RecursiveChunker \<Rightarrow> cache \<Rightarrow> bool" where
  "cache_consistent self cache = list_all (\<lambda>e. snd e = fst (estimate_body self (fst e))) cache"

subsection \<open>The splitter\<close>

text \<open>
  The pass of \<^verbatim>\<open>_split_text\<close> that merges short splits. The loop's state is
  \<^verbatim>\<open>current\<close> and \<^verbatim>\<open>merged\<close>; each round runs the three-way branch and then
  the flush test.
\<close>

fun merge_short_loop :: "int \<Rightarrow> str list \<Rightarrow> str \<Rightarrow> str list \<Rightarrow> str \<times> str list" where
  "merge_short_loop m [] current merged = (current, merged)"
| "merge_short_loop m (split # splits) current merged =
     (let (current1, merged1) =
            (if int (length split) < m then (current @ split, merged)
             else if current \<noteq> [] then ([], merged @ [current @ split])
             else (current, merged @ [split]));
          (current2, merged2) =
            (if int (length current1) \<ge> m then ([], merged1 @ [current1])
             else (current1, merged1))
      in merge_short_loop m splits current2 merged2)"

definition merge_short :: "int \<Rightarrow> str list \<Rightarrow> str list" where
  "merge_short m splits =
     (let (current, merged) = merge_short_loop m splits [] []
      in if current \<noteq> [] then merged @ [current] else merged)"

text \<open>
  \<^verbatim>\<open>[encoded[i : i + n] for i in range(0, len(encoded), n)]\<close> for a positive step
  \<open>n\<close>; a negative step gives an empty range, which is the value at \<open>n = 0\<close> here
  (the step 0 itself is an error, raised in \<open>split_text\<close>).
\<close>

function token_windows :: "nat \<Rightarrow> 'a list \<Rightarrow> 'a list list" where
  "token_windows n xs =
     (if n = 0 \<or> xs = [] then [] else take n xs # token_windows n (drop n xs))"
  by pat_completeness auto
termination
  by (relation "measure (\<lambda>(n, xs). length xs)") auto

declare token_windows.simps [simp del]

text \<open>
  \<^verbatim>\<open>recursive_level.whitespace\<close> and \<^verbatim>\<open>recursive_level.delimiters\<close>. The dataclass
  \<^verbatim>\<open>RecursiveLevel\<close> declares \<^verbatim>\<open>whitespace_delimiter\<close>, \<^verbatim>\<open>custom_delimiters\<close> and
  \<^verbatim>\<open>include_delim\<close> and no other attribute, so either read raises AttributeError.
\<close>

definition level_whitespace :: "RecursiveLevel \<Rightarrow> error + bool" where
  "level_whitespace r = Inl AttributeError"

definition level_delimiters :: "RecursiveLevel \<Rightarrow> error + delims option" where
  "level_delimiters r = Inl AttributeError"

text \<open>
  \<^verbatim>\<open>_split_text\<close>. The first statement reads \<^verbatim>\<open>recursive_level.whitespace\<close>; the
  branches are kept as the source has them. The parameter \<^verbatim>\<open>recursive_level\<close> is
  \<open>a_level\<close> here (the name is a field of the chunk record).
\<close>

definition split_text :: "'tok RecursiveChunker \<Rightarrow> str \<Rightarrow> RecursiveLevel \<Rightarrow> error + str list" where
  "split_text self txt a_level =
     (case level_whitespace a_level of
        Inl e \<Rightarrow> Inl e
      | Inr ws \<Rightarrow>
         (if ws then Inr (str_split 32 txt)
          else (case level_delimiters a_level of
                  Inl e \<Rightarrow> Inl e
                | Inr ds \<Rightarrow>
                   (if delims_truthy ds then
                      (let txt1 =
                             (if include_delim a_level = Some ''prev''
                                then foldl (\<lambda>t delimiter. str_replace delimiter (delimiter @ [sep]) t)
                                       txt (delims_iter (the ds))
                              else if include_delim a_level = Some ''next''
                                then foldl (\<lambda>t delimiter. str_replace delimiter (sep # delimiter) t)
                                       txt (delims_iter (the ds))
                              else foldl (\<lambda>t delimiter. str_replace delimiter [sep] t)
                                     txt (delims_iter (the ds)));
                           splits = filter (\<lambda>split. split \<noteq> []) (str_split sep txt1)
                       in Inr (merge_short (min_characters_per_chunk self) splits))
                    else
                      (if chunk_size self = 0 then Inl ValueError
                       else Inr (decode_batch (tokenizer self)
                                   (token_windows (nat (chunk_size self))
                                      (encode (tokenizer self) txt))))))))"

subsection \<open>Chunk creation\<close>

text \<open>
  \<^verbatim>\<open>_make_chunks\<close>. The search runs inside \<^verbatim>\<open>try\<close>; the handler prints one line and
  sets both offsets to 0. The function then calls
  \<^verbatim>\<open>RecursiveChunk(text=, start_index=, end_index=, token_count=, level=)\<close>, outside the
  \<^verbatim>\<open>try\<close>. The result is what the call returns or raises, and the lines printed.
\<close>

definition make_chunks ::
    "'tok RecursiveChunker \<Rightarrow> str \<Rightarrow> int \<Rightarrow> nat \<Rightarrow> str option \<Rightarrow> int
      \<Rightarrow> (error + RecursiveChunk) \<times> str list" where
  "make_chunks self txt tc lvl full_text last_chunk_end_index =
     (let full = (case full_text of None \<Rightarrow> txt | Some f \<Rightarrow> f);
          found = str_index (str_from full last_chunk_end_index) txt;
          start = (case found of Some i \<Rightarrow> last_chunk_end_index + int i | None \<Rightarrow> 0);
          stop = (case found of Some i \<Rightarrow> last_chunk_end_index + int i + int (length txt)
                  | None \<Rightarrow> 0);
          printed =
            (case found of
               Some i \<Rightarrow> []
             | None \<Rightarrow>
                 [cp ''Error finding start and end index for text '' @ [39] @ txt @ [39]
                  @ cp '' in full_text. Error: substring not found''
                  @ cp ''Setting start and end index to 0.''])
      in (RecursiveChunk_init
            [''text'', ''start_index'', ''end_index'', ''token_count'', ''level'']
            \<lparr>chunk_text = txt, start_index = start, end_index = stop, token_count = tc,
             recursive_level = None\<rparr>,
          printed))"

subsection \<open>The packer\<close>

text \<open>\<^verbatim>\<open>list(accumulate(xs, f))\<close>.\<close>

fun accumulate_from :: "(int \<Rightarrow> int \<Rightarrow> int) \<Rightarrow> int \<Rightarrow> int list \<Rightarrow> int list" where
  "accumulate_from f a [] = []"
| "accumulate_from f a (y # ys) = f a y # accumulate_from f (f a y) ys"

fun accumulate :: "(int \<Rightarrow> int \<Rightarrow> int) \<Rightarrow> int list \<Rightarrow> int list" where
  "accumulate f [] = []"
| "accumulate f (x # xs) = x # accumulate_from f x xs"

text \<open>
  \<^verbatim>\<open>bisect.bisect_left(a, x, lo, hi)\<close> of the standard library, for \<open>lo\<close> not negative
  and \<open>hi \<le> len(a)\<close>: the binary search as the library runs it, on any list.
\<close>

function bisect_left :: "int list \<Rightarrow> int \<Rightarrow> nat \<Rightarrow> nat \<Rightarrow> nat" where
  "bisect_left a x lo hi =
     (if lo < hi
      then (if a ! ((lo + hi) div 2) < x
            then bisect_left a x ((lo + hi) div 2 + 1) hi
            else bisect_left a x lo ((lo + hi) div 2))
      else lo)"
  by pat_completeness auto
termination
  by (relation "measure (\<lambda>(a, x, lo, hi). hi - lo)") auto

declare bisect_left.simps [simp del]

text \<open>\<^verbatim>\<open>xs[a:b]\<close> for offsets that are not negative.\<close>

definition slice :: "'a list \<Rightarrow> nat \<Rightarrow> nat \<Rightarrow> 'a list" where
  "slice xs a b = take (b - a) (drop a xs)"

text \<open>
  The boundary of the next group, as an integer:
  \<^verbatim>\<open>min(bisect_left(cumulative, required, lo=current_index) - 1, len(splits))\<close>, moved one
  up when it is \<^verbatim>\<open>current_index\<close>.
\<close>

definition merge_index :: "int \<Rightarrow> str list \<Rightarrow> int list \<Rightarrow> nat \<Rightarrow> int" where
  "merge_index cs splits cumulative current_index =
     (let current_token_count = cumulative ! current_index;
          required_token_count = current_token_count + cs;
          index = min (int (bisect_left cumulative required_token_count current_index
                              (length cumulative)) - 1)
                      (int (length splits))
      in if index = int current_index then index + 1 else index)"

text \<open>
  The \<^verbatim>\<open>while\<close> loop of \<^verbatim>\<open>_merge_splits\<close>. It may not return (\<open>None\<close>). A
  negative boundary can only be \<open>-1\<close> after \<open>current_index = 0\<close>; the next round then
  calls \<^verbatim>\<open>bisect_left\<close> with \<^verbatim>\<open>lo = -1\<close>, which raises ValueError.
\<close>

partial_function (option) merge_loop ::
    "int \<Rightarrow> bool \<Rightarrow> str list \<Rightarrow> int list \<Rightarrow> nat \<Rightarrow> str list \<Rightarrow> int list
      \<Rightarrow> (error + str list \<times> int list) option" where
  "merge_loop cs combine_whitespace splits cumulative current_index merged combined =
     (if current_index < length splits then
        (if merge_index cs splits cumulative current_index < 0 then Some (Inl ValueError)
         else merge_loop cs combine_whitespace splits cumulative
                (nat (merge_index cs splits cumulative current_index))
                (merged @
                  [if combine_whitespace
                   then str_join (cp '' '')
                          (slice splits current_index
                             (nat (merge_index cs splits cumulative current_index)))
                   else concat
                          (slice splits current_index
                             (nat (merge_index cs splits cumulative current_index)))])
                (combined @
                  [cumulative ! (min (nat (merge_index cs splits cumulative current_index))
                                     (length splits))
                   - cumulative ! current_index]))
      else Some (Inr (merged, combined)))"

declare merge_loop.simps [code]

definition merge_splits ::
    "'tok RecursiveChunker \<Rightarrow> str list \<Rightarrow> int list \<Rightarrow> bool
      \<Rightarrow> (error + str list \<times> int list) option" where
  "merge_splits self splits token_counts combine_whitespace =
     (if splits = [] \<or> token_counts = [] then Some (Inr ([], []))
      else if length splits \<noteq> length token_counts then Some (Inl ValueError)
      else if list_all (\<lambda>counts. counts > chunk_size self) token_counts
        then Some (Inr (splits, token_counts))
      else merge_loop (chunk_size self) combine_whitespace splits
             (if combine_whitespace
              then accumulate (\<lambda>x y. x + y + 1) (0 # token_counts)
              else accumulate (\<lambda>x y. x + y) (0 # token_counts))
             0 [] [])"

subsection \<open>The recursive driver\<close>

text \<open>
  \<^verbatim>\<open>curr_rule.delimiters is None and not curr_rule.whitespace\<close> and
  \<^verbatim>\<open>curr_rule.delimiters is None and curr_rule.whitespace\<close>, read left to right.
\<close>

definition level_no_delim :: "RecursiveLevel \<Rightarrow> error + bool" where
  "level_no_delim r =
     (case level_delimiters r of
        Inl e \<Rightarrow> Inl e
      | Inr d \<Rightarrow>
          (if d = None
           then (case level_whitespace r of Inl e \<Rightarrow> Inl e | Inr w \<Rightarrow> Inr (\<not> w))
           else Inr False))"

definition level_whitespace_only :: "RecursiveLevel \<Rightarrow> error + bool" where
  "level_whitespace_only r =
     (case level_delimiters r of
        Inl e \<Rightarrow> Inl e
      | Inr d \<Rightarrow>
          (if d = None
           then (case level_whitespace r of Inl e \<Rightarrow> Inl e | Inr w \<Rightarrow> Inr w)
           else Inr False))"

text \<open>
  The \<^verbatim>\<open>for\<close> loop of \<^verbatim>\<open>_recursive_chunk\<close> over \<^verbatim>\<open>zip(merged, combined_token_counts)\<close>.
  Its state is \<^verbatim>\<open>chunks\<close>, \<^verbatim>\<open>last_chunk_end_index\<close> and the estimator's cache. The
  argument \<open>recurse\<close> is the call made for a fragment over budget. Reading
  \<^verbatim>\<open>chunks[-1].end_index\<close> from a plain string raises AttributeError.
\<close>

fun chunk_loop ::
    "'tok RecursiveChunker \<Rightarrow> (cache \<Rightarrow> str \<Rightarrow> (error + out list \<times> cache) option)
      \<Rightarrow> RecursiveLevel \<Rightarrow> nat \<Rightarrow> str \<Rightarrow> str list \<Rightarrow> (str \<times> int) list \<Rightarrow> out list \<Rightarrow> int
      \<Rightarrow> cache \<Rightarrow> (error + out list \<times> cache) option" where
  "chunk_loop self recurse curr_rule lvl full_text merged [] chunks last_chunk_end_index cache =
     Some (Inr (chunks, cache))"
| "chunk_loop self recurse curr_rule lvl full_text merged ((split, tc) # rest) chunks
      last_chunk_end_index cache =
     (if tc > chunk_size self then
        (case recurse cache split of
           None \<Rightarrow> None
         | Some (Inl e) \<Rightarrow> Some (Inl e)
         | Some (Inr (sub, cache')) \<Rightarrow>
             chunk_loop self recurse curr_rule lvl full_text merged rest (chunks @ sub)
               last_chunk_end_index cache')
      else if return_type self = ''chunks'' then
        (case (if chunks \<noteq> []
               then (case last chunks of
                       OChunk c \<Rightarrow> Inr (end_index c)
                     | OText s \<Rightarrow> Inl AttributeError)
               else Inr last_chunk_end_index) of
           Inl e \<Rightarrow> Some (Inl e)
         | Inr last_end \<Rightarrow>
            (case level_no_delim curr_rule of
               Inl e \<Rightarrow> Some (Inl e)
             | Inr no_delim \<Rightarrow>
                (case fst (make_chunks self split tc lvl
                             (Some (if no_delim then concat merged else full_text))
                             last_end) of
                   Inl e \<Rightarrow> Some (Inl e)
                 | Inr c \<Rightarrow>
                     chunk_loop self recurse curr_rule lvl full_text merged rest
                       (chunks @ [OChunk c]) last_end cache)))
      else if return_type self = ''texts'' then
        chunk_loop self recurse curr_rule lvl full_text merged rest (chunks @ [OText split])
          last_chunk_end_index cache
      else
        chunk_loop self recurse curr_rule lvl full_text merged rest chunks last_chunk_end_index
          cache)"

text \<open>
  Lines 265 to 283 of \<^verbatim>\<open>_recursive_chunk\<close>: the fragments of one level under its rule,
  their estimated token counts, and the merge in the mode the rule asks for.
\<close>

definition split_and_merge ::
    "'tok RecursiveChunker \<Rightarrow> cache \<Rightarrow> str \<Rightarrow> RecursiveLevel
      \<Rightarrow> (error + (str list \<times> int list) \<times> cache) option" where
  "split_and_merge self cache txt curr_rule =
     (case split_text self txt curr_rule of
        Inl e \<Rightarrow> Some (Inl e)
      | Inr splits \<Rightarrow>
         (case estimate_all self cache splits of
            (token_counts, cache') \<Rightarrow>
              (case level_no_delim curr_rule of
                 Inl e \<Rightarrow> Some (Inl e)
               | Inr no_delim \<Rightarrow>
                  (if no_delim then Some (Inr ((splits, token_counts), cache'))
                   else (case level_whitespace_only curr_rule of
                           Inl e \<Rightarrow> Some (Inl e)
                         | Inr ws \<Rightarrow>
                            (case merge_splits self splits token_counts ws of
                               None \<Rightarrow> None
                             | Some (Inl e) \<Rightarrow> Some (Inl e)
                             | Some (Inr m) \<Rightarrow> Some (Inr (m, cache'))))))))"

text \<open>
  \<^verbatim>\<open>_recursive_chunk\<close>. For a fragment over budget the source calls
  \<^verbatim>\<open>self._chunk_helper(split, level + 1, full_text)\<close>, a method that recursive.py does not
  define and whose base class \<^verbatim>\<open>chonkie/chunker/base.py\<close> is not among the sources.

  Modelled from the spec: \<^verbatim>\<open>_chunk_helper\<close>, missing from the sources, is the driver
  itself (section 4.6: "if its token count exceeds chunk_size, recurse with level + 1 on
  that fragment's text (same full document reference, for offset recovery)").
\<close>

function recursive_chunk ::
    "'tok RecursiveChunker \<Rightarrow> cache \<Rightarrow> str \<Rightarrow> nat \<Rightarrow> str option
      \<Rightarrow> (error + out list \<times> cache) option" where
  "recursive_chunk self cache txt lvl full_text =
     (if txt = [] then Some (Inr ([], cache))
      else (case rules_len (rules self) of
              Inl e \<Rightarrow> Some (Inl e)
            | Inr n \<Rightarrow>
               (if lvl \<ge> n then
                  (if return_type self = ''texts'' then Some (Inr ([OText txt], cache))
                   else if return_type self = ''chunks'' then
                     (case fst (make_chunks self txt
                                  (fst (fst (estimate_token_count self cache txt)))
                                  lvl full_text 0) of
                        Inl e \<Rightarrow> Some (Inl e)
                      | Inr c \<Rightarrow>
                          Some (Inr ([OChunk c], snd (estimate_token_count self cache txt))))
                   else Some (Inl ValueError))
                else
                  (case rules_getitem (rules self) lvl of
                     Inl e \<Rightarrow> Some (Inl e)
                   | Inr curr_rule \<Rightarrow>
                      (case split_and_merge self cache txt curr_rule of
                         None \<Rightarrow> None
                       | Some (Inl e) \<Rightarrow> Some (Inl e)
                       | Some (Inr ((merged, combined_token_counts), cache')) \<Rightarrow>
                           chunk_loop self
                             (\<lambda>c split. recursive_chunk self c split (lvl + 1)
                                (Some (case full_text of None \<Rightarrow> txt | Some f \<Rightarrow> f)))
                             curr_rule lvl
                             (case full_text of None \<Rightarrow> txt | Some f \<Rightarrow> f)
                             merged (zip merged combined_token_counts) [] 0 cache')))))"
  by pat_completeness auto
termination
  by (relation "measure (\<lambda>(self, cache, txt, lvl, full_text).
        (case rules_len (rules self) of Inl e \<Rightarrow> 0 | Inr n \<Rightarrow> n - lvl))") auto

declare recursive_chunk.simps [simp del]

text \<open>\<^verbatim>\<open>chunk\<close>, with the estimator's cache as it stands at the call.\<close>

definition chunk ::
    "'tok RecursiveChunker \<Rightarrow> cache \<Rightarrow> str \<Rightarrow> (error + out list \<times> cache) option" where
  "chunk self cache txt = recursive_chunk self cache txt 0 (Some txt)"

subsection \<open>Concrete objects for evaluation\<close>

text \<open>
  A tokenizer whose tokens are the code points themselves, and chunkers built on it with
  \<^verbatim>\<open>min_characters_per_chunk = 1\<close>.
\<close>

definition char_tokenizer :: "nat tokenizer" where
  "char_tokenizer =
     \<lparr>count_tokens = (\<lambda>s. int (length s)), encode = (\<lambda>s. s), decode_batch = (\<lambda>ws. ws)\<rparr>"

definition example_chunker :: "int \<Rightarrow> RecursiveLevel list \<Rightarrow> string \<Rightarrow> nat RecursiveChunker" where
  "example_chunker cs ls rt =
     \<lparr>tokenizer = char_tokenizer, chunk_size = cs, rules = RulesList ls,
      min_characters_per_chunk = 1, return_type = rt\<rparr>"

section \<open>Level rules\<close>

lemma single_space_list_rejected:
  "cp '' '' \<in> set ds \<Longrightarrow> \<exists>e. RecursiveLevel_init ws (Some (DList ds)) inc = Inl e"
  by (auto simp: RecursiveLevel_init_def validate_fields_def list_ex_iff Let_def)

text \<open>
  Claim C8 (a delimiter that is exactly one space is rejected, whether the delimiters are
  given as one string or as a list). The list is rejected (lemma
  \<open>single_space_list_rejected\<close>), but \<open>validate_fields\<close> tests a delimiter given as one
  string only for emptiness: the level whose \<^verbatim>\<open>custom_delimiters\<close> is the string of
  one space is constructed without error.
\<close>

theorem single_space_string_accepted:
  "RecursiveLevel_init False (Some (DStr (cp '' ''))) (Some ''prev'')
     = Inr \<lparr>whitespace_delimiter = False, custom_delimiters = Some (DStr (cp '' '')),
            include_delim = Some ''prev''\<rparr>"
  by (simp add: RecursiveLevel_init_def validate_fields_def cp_def)

section \<open>The token count estimator\<close>

lemma floor_len_div: "\<lfloor>real n / 6.5\<rfloor> = (2 * int n) div 13"
proof -
  have "real n / 6.5 = real_of_int (2 * int n) / real_of_int 13" by simp
  then show ?thesis by (simp only: floor_divide_of_int_eq)
qed

lemma cache_consistent_Nil: "cache_consistent self []"
  by (simp add: cache_consistent_def)

lemma estimate_body_value:
  "fst (estimate_body self t) =
     (if max 1 \<lfloor>real (length t) / 6.5\<rfloor> > chunk_size self
      then chunk_size self + 1 else count_tokens (tokenizer self) t)"
  unfolding floor_len_div by (simp add: estimate_body_def Let_def)

lemma estimate_body_calls:
  "snd (estimate_body self t) =
     (if max 1 \<lfloor>real (length t) / 6.5\<rfloor> > chunk_size self then [] else [t])"
  unfolding floor_len_div by (simp add: estimate_body_def Let_def)

lemma cache_hit_value:
  assumes "cache_consistent self cache" and "map_of cache t = Some v"
  shows "v = fst (estimate_body self t)"
proof -
  have "(t, v) \<in> set cache" using assms(2) by (rule map_of_SomeD)
  then show ?thesis using assms(1) by (auto simp: cache_consistent_def list_all_iff)
qed

lemma cache_consistent_step:
  assumes "cache_consistent self cache"
  shows "cache_consistent self (snd (estimate_token_count self cache t))"
proof (cases "map_of cache t")
  case None
  have "set (take 4096 ((t, fst (estimate_body self t)) # cache))
          \<subseteq> insert (t, fst (estimate_body self t)) (set cache)"
    using set_take_subset[of 4096 "(t, fst (estimate_body self t)) # cache"] by simp
  then show ?thesis using assms None
    by (auto simp: estimate_token_count_def cache_consistent_def list_all_iff)
next
  case (Some v)
  then have "v = fst (estimate_body self t)" using assms cache_hit_value by blast
  then show ?thesis using assms Some
    by (auto simp: estimate_token_count_def cache_consistent_def list_all_iff)
qed

text \<open>
  Claim C7, amended. The estimator compares \<open>max(1, floor(len(text) / 6.5))\<close> with
  \<open>chunk_size\<close>, not the quotient itself. On a cache that holds results of this chunker:
  above \<open>chunk_size\<close> the call returns \<open>chunk_size + 1\<close> and hands no text to the
  tokenizer; otherwise it returns the tokenizer's count of the text, and the only text
  it can hand to the tokenizer is that one. The cache it leaves holds results of this
  chunker again.
\<close>

theorem estimate_token_count_two_tier:
  assumes "cache_consistent self cache"
  shows "fst (fst (estimate_token_count self cache t)) =
           (if max 1 \<lfloor>real (length t) / 6.5\<rfloor> > chunk_size self
            then chunk_size self + 1 else count_tokens (tokenizer self) t)
         \<and> (if max 1 \<lfloor>real (length t) / 6.5\<rfloor> > chunk_size self
             then snd (fst (estimate_token_count self cache t)) = []
             else set (snd (fst (estimate_token_count self cache t))) \<subseteq> {t})
         \<and> cache_consistent self (snd (estimate_token_count self cache t))"
proof (cases "map_of cache t")
  case None
  then have r: "fst (estimate_token_count self cache t) = estimate_body self t"
    by (simp add: estimate_token_count_def)
  show ?thesis
    using cache_consistent_step[OF assms, of t]
    by (simp add: r estimate_body_value estimate_body_calls)
next
  case (Some v)
  then have v: "v = fst (estimate_body self t)" using assms cache_hit_value by blast
  have r: "fst (estimate_token_count self cache t) = (v, [])"
    using Some by (simp add: estimate_token_count_def)
  show ?thesis
    using cache_consistent_step[OF assms, of t]
    by (simp add: r v estimate_body_value)
qed

theorem estimate_token_count_two_tier_witness:
  "cache_consistent (example_chunker 5 [] ''chunks'') [(cp ''ab'', 2)]
   \<and> fst (fst (estimate_token_count (example_chunker 5 [] ''chunks'') [(cp ''ab'', 2)]
                 (cp ''abc''))) = 3
   \<and> set (snd (fst (estimate_token_count (example_chunker 5 [] ''chunks'') [(cp ''ab'', 2)]
                      (cp ''abc'')))) \<subseteq> {cp ''abc''}
   \<and> cache_consistent (example_chunker 5 [] ''chunks'')
        (snd (estimate_token_count (example_chunker 5 [] ''chunks'') [(cp ''ab'', 2)]
                (cp ''abc'')))"
proof -
  have h: "cache_consistent (example_chunker 5 [] ''chunks'') [(cp ''ab'', 2)]"
    by (simp add: cache_consistent_def estimate_body_def example_chunker_def
          char_tokenizer_def cp_def)
  have o: "\<not> max 1 \<lfloor>real (length (cp ''abc'')) / 6.5\<rfloor>
             > chunk_size (example_chunker 5 [] ''chunks'')"
    unfolding floor_len_div by (simp add: example_chunker_def cp_def)
  have c: "count_tokens (tokenizer (example_chunker 5 [] ''chunks'')) (cp ''abc'') = 3"
    by (simp add: example_chunker_def char_tokenizer_def cp_def)
  show ?thesis
    using estimate_token_count_two_tier[OF h, of "cp ''abc''"] h o c by simp
qed

text \<open>
  Claim C7 as stated fails: a text of 7 characters with \<open>chunk_size = 1\<close> has
  \<open>len(text) / 6.5 > chunk_size\<close>, yet on an empty cache the tokenizer is called and its
  count (7 for the character tokenizer) is returned, not \<open>chunk_size + 1 = 2\<close>.
\<close>

theorem estimate_heuristic_counterexample:
  "real (length (cp ''abcdefg'')) / 6.5 > real_of_int (chunk_size (example_chunker 1 [] ''chunks''))
   \<and> fst (estimate_token_count (example_chunker 1 [] ''chunks'') [] (cp ''abcdefg''))
       = (7, [cp ''abcdefg''])
   \<and> (7, [cp ''abcdefg'']) \<noteq> (chunk_size (example_chunker 1 [] ''chunks'') + 1, [])"
  by (simp add: estimate_token_count_def estimate_body_def example_chunker_def
        char_tokenizer_def cp_def)

section \<open>Chunk creation\<close>

text \<open>\<open>str_index\<close> is \<open>None\<close> exactly when no offset of the string starts an occurrence.\<close>

lemma str_index_None_iff:
  "str_index s sub = None \<longleftrightarrow> (\<forall>i. take (length sub) (drop i s) \<noteq> sub \<or> length s < i)"
proof (induction s)
  case Nil
  then show ?case by auto
next
  case (Cons c s)
  show ?case
  proof (cases "take (length sub) (c # s) = sub")
    case True
    then show ?thesis by (auto intro: exI[of _ 0])
  next
    case False
    have "(\<forall>i. take (length sub) (drop i (c # s)) \<noteq> sub \<or> length (c # s) < i)
          \<longleftrightarrow> (\<forall>i. take (length sub) (drop i s) \<noteq> sub \<or> length s < i)"
    proof
      assume h: "\<forall>i. take (length sub) (drop i (c # s)) \<noteq> sub \<or> length (c # s) < i"
      show "\<forall>i. take (length sub) (drop i s) \<noteq> sub \<or> length s < i"
      proof
        fix i show "take (length sub) (drop i s) \<noteq> sub \<or> length s < i"
          using h[rule_format, of "Suc i"] by simp
      qed
    next
      assume h: "\<forall>i. take (length sub) (drop i s) \<noteq> sub \<or> length s < i"
      show "\<forall>i. take (length sub) (drop i (c # s)) \<noteq> sub \<or> length (c # s) < i"
      proof
        fix i show "take (length sub) (drop i (c # s)) \<noteq> sub \<or> length (c # s) < i"
          using h[rule_format, of "i - 1"] False by (cases i) auto
      qed
    qed
    with False Cons show ?thesis by simp
  qed
qed

text \<open>
  The last statement of \<open>make_chunks\<close> passes the keyword \<^verbatim>\<open>level\<close>, which names no
  field of \<^verbatim>\<open>RecursiveChunk\<close>: whatever the search found, the call raises TypeError.
\<close>

lemma make_chunks_type_error:
  "fst (make_chunks self t tc lvl full_text last_end) = Inl TypeError"
  by (simp add: make_chunks_def Let_def RecursiveChunk_init_def RecursiveChunk_fields_def)

text \<open>
  Claim C9 (a fragment that cannot be located gives a chunk record with offsets 0 and 0,
  a printed warning and no error). For the fragment \<^verbatim>\<open>ab\<close> searched in \<^verbatim>\<open>a,b\<close> the
  warning is printed, and then the construction of the record raises TypeError: no
  record is returned.
\<close>

theorem make_chunks_not_found_raises:
  "fst (make_chunks (example_chunker 5 [] ''chunks'') (cp ''ab'') 2 0 (Some (cp ''a,b'')) 0)
     = Inl TypeError
   \<and> length (snd (make_chunks (example_chunker 5 [] ''chunks'') (cp ''ab'') 2 0
                    (Some (cp ''a,b'')) 0)) = 1"
  by (simp add: make_chunks_def Let_def RecursiveChunk_init_def RecursiveChunk_fields_def
        str_from_def cp_def)

section \<open>The short-split merge of the splitter\<close>

lemma merge_short_loop_concat:
  "merge_short_loop m splits cur merged = (c', m')
    \<Longrightarrow> concat m' @ c' = concat merged @ cur @ concat splits"
  by (induction splits arbitrary: cur merged) (auto simp: Let_def split: if_splits prod.splits)

lemma concat_merge_short: "concat (merge_short m splits) = concat splits"
proof -
  obtain c' m' where h: "merge_short_loop m splits [] [] = (c', m')"
    by (cases "merge_short_loop m splits [] []")
  from merge_short_loop_concat[OF h] have "concat m' @ c' = concat splits" by simp
  with h show ?thesis by (auto simp: merge_short_def)
qed

lemma concat_eq_Nil_no_empty: "[] \<notin> set g \<Longrightarrow> concat g = [] \<Longrightarrow> g = []"
  by (cases g) auto

text \<open>
  The loop's invariant: \<open>merged\<close> holds the concatenations of the groups closed so far,
  \<open>current\<close> that of the open group, and the groups are consecutive runs of the input.
\<close>

lemma merge_short_loop_groups:
  assumes "0 < m" and "[] \<notin> set splits" and "[] \<notin> set g" and "[] \<notin> set gs"
  shows "\<exists>gs' g'. merge_short_loop m splits (concat g) (map concat gs) = (concat g', map concat gs')
           \<and> concat gs' @ g' = concat gs @ g @ splits \<and> [] \<notin> set g' \<and> [] \<notin> set gs'"
  using assms
proof (induction splits arbitrary: g gs)
  case Nil
  then show ?case by auto
next
  case (Cons split splits)
  have ne: "split \<noteq> []" and rest: "[] \<notin> set splits" using Cons.prems(2) by auto
  have flush: "\<exists>gs' g'. merge_short_loop m splits [] (map concat gs @ [concat g @ split])
                   = (concat g', map concat gs')
           \<and> concat gs' @ g' = concat gs @ g @ split # splits \<and> [] \<notin> set g' \<and> [] \<notin> set gs'"
  proof -
    have "[] \<notin> set (gs @ [g @ [split]])" using Cons.prems(4) by auto
    from Cons.IH[OF Cons.prems(1) rest _ this, of "[]"]
    show ?thesis by simp
  qed
  show ?case
  proof (cases "int (length split) < m")
    case short: True
    show ?thesis
    proof (cases "int (length (concat g @ split)) \<ge> m")
      case True
      with short flush show ?thesis by simp
    next
      case False
      have "[] \<notin> set (g @ [split])" using Cons.prems(3) ne by auto
      from Cons.IH[OF Cons.prems(1) rest this Cons.prems(4)] False short
      show ?thesis by simp
    qed
  next
    case long: False
    show ?thesis
    proof (cases "concat g = []")
      case True
      then have "g = []" using Cons.prems(3) concat_eq_Nil_no_empty by blast
      with long flush Cons.prems(1) show ?thesis by simp
    next
      case False
      with long flush Cons.prems(1) show ?thesis by simp
    qed
  qed
qed

text \<open>
  Claim C10. For a positive \<^verbatim>\<open>min_characters_per_chunk\<close> and the fragments of a
  delimiter split (none of them empty: the split filters the empty ones out), the
  short-fragment merge returns the concatenations of consecutive, non-empty groups that
  partition the input list: every input fragment is emitted once, in input order, and the
  concatenation of the merged fragments is that of the input.
\<close>

theorem merge_short_preserves_content:
  assumes "0 < m" and "[] \<notin> set splits"
  shows "concat (merge_short m splits) = concat splits
         \<and> (\<exists>groups. concat groups = splits \<and> [] \<notin> set groups
                \<and> merge_short m splits = map concat groups)"
proof -
  from merge_short_loop_groups[OF assms, of "[]" "[]"]
  obtain gs' g' where h: "merge_short_loop m splits [] [] = (concat g', map concat gs')"
    and cover: "concat gs' @ g' = splits" and ne: "[] \<notin> set g'" "[] \<notin> set gs'"
    by auto
  show ?thesis
  proof (cases "g' = []")
    case True
    with h cover ne have "concat gs' = splits \<and> [] \<notin> set gs' \<and> merge_short m splits = map concat gs'"
      by (simp add: merge_short_def)
    then show ?thesis using concat_merge_short by blast
  next
    case False
    then have "concat g' \<noteq> []" using ne concat_eq_Nil_no_empty by blast
    with h cover ne False
    have "concat (gs' @ [g']) = splits \<and> [] \<notin> set (gs' @ [g'])
           \<and> merge_short m splits = map concat (gs' @ [g'])"
      by (simp add: merge_short_def)
    then show ?thesis using concat_merge_short by blast
  qed
qed

theorem merge_short_preserves_content_witness:
  "concat (merge_short 3 [cp ''a,'', cp ''b,'', cp ''c'']) = concat [cp ''a,'', cp ''b,'', cp ''c'']
         \<and> (\<exists>groups. concat groups = [cp ''a,'', cp ''b,'', cp ''c''] \<and> [] \<notin> set groups
                \<and> merge_short 3 [cp ''a,'', cp ''b,'', cp ''c''] = map concat groups)"
  using merge_short_preserves_content[where m = 3 and splits = "[cp ''a,'', cp ''b,'', cp ''c'']"]
  by (simp add: cp_def)

section \<open>The packer\<close>

text \<open>
  Claim C6. When the two lists have the same length and every token count exceeds
  \<open>chunk_size\<close>, \<open>merge_splits\<close> returns both lists as they are, in either join mode.
\<close>

theorem merge_splits_short_circuit:
  assumes "length splits = length token_counts"
    and "\<forall>c\<in>set token_counts. chunk_size self < c"
  shows "merge_splits self splits token_counts combine_whitespace = Some (Inr (splits, token_counts))"
  using assms by (auto simp: merge_splits_def list_all_iff)

theorem merge_splits_short_circuit_witness:
  "merge_splits (example_chunker 5 [] ''chunks'') [cp ''ab'', cp ''c''] [6, 9] True
     = Some (Inr ([cp ''ab'', cp ''c''], [6, 9]))"
  using merge_splits_short_circuit[where splits = "[cp ''ab'', cp ''c'']" and token_counts = "[6, 9]"
      and self = "example_chunker 5 [] ''chunks''" and combine_whitespace = True]
  by (simp add: example_chunker_def)

text \<open>
  Claim C5 (each group is the longest run whose cumulative count does not exceed
  \<open>chunk_size\<close>). The boundary is \<^verbatim>\<open>bisect_left(...) - 1\<close>, the last prefix whose
  cumulative count is strictly below \<open>current + chunk_size\<close>: two fragments of 2 and 3
  tokens fill a budget of 5 exactly and are not merged.
\<close>

theorem merge_splits_exact_fit_not_merged:
  "merge_splits (example_chunker 5 [] ''chunks'') [cp ''a'', cp ''b''] [2, 3] False
     = Some (Inr ([cp ''a'', cp ''b''], [2, 3]))"
  by code_simp

section \<open>The recursive driver\<close>

text \<open>
  With a hierarchy held as a list, below its last level and on a text that is not empty,
  the driver raises AttributeError: \<open>split_text\<close> is its first call, and the first
  statement of \<open>split_text\<close> reads \<^verbatim>\<open>recursive_level.whitespace\<close>. No fragment is
  produced, merged, finalized or recursed into.
\<close>

lemma split_text_attribute_error: "split_text self t r = Inl AttributeError"
  by (simp add: split_text_def level_whitespace_def)

lemma recursive_chunk_attribute_error:
  assumes "rules self = RulesList rs" and "lvl < length rs" and "t \<noteq> []"
  shows "recursive_chunk self cache t lvl full_text = Some (Inl AttributeError)"
  using assms
  by (subst recursive_chunk.simps)
     (simp add: rules_len_def rules_getitem_def split_and_merge_def split_text_attribute_error)

text \<open>
  At or past the last level the driver returns the text itself in the return mode
  \<^verbatim>\<open>texts\<close>; in the return mode \<^verbatim>\<open>chunks\<close> it calls \<open>make_chunks\<close>, which raises
  TypeError.
\<close>

lemma recursive_chunk_terminal_chunks:
  assumes "rules self = RulesList rs" and "length rs \<le> lvl" and "t \<noteq> []"
    and "return_type self = ''chunks''"
  shows "recursive_chunk self cache t lvl full_text = Some (Inl TypeError)"
  using assms
  by (subst recursive_chunk.simps) (simp add: rules_len_def make_chunks_type_error)

text \<open>
  Claim C1 (the chunks returned by \<open>chunk\<close> concatenate to the input text). With the
  default hierarchy, a budget of 5 tokens and the text \<^verbatim>\<open>Hi there. This is a test.\<close>,
  \<open>chunk\<close> returns no chunks: it raises AttributeError.
\<close>

theorem chunk_default_hierarchy_raises:
  "chunk (example_chunker 5 default_levels ''chunks'') [] (cp ''Hi there. This is a test.'')
     = Some (Inl AttributeError)"
  by code_simp




end
